theory Spec2Isabelle
  imports Main
begin

section \<open>JSON values\<close>

text \<open>
  The editor works on the values that \<^verbatim>\<open>JSON.parse\<close> and \<^verbatim>\<open>JSON5.parse\<close> produce. An object is
  its own-property map from key to value. A property holding \<^verbatim>\<open>undefined\<close> is read like an
  absent one by every operation below and is omitted by \<^verbatim>\<open>JSON.stringify\<close>, so the two are
  identified: \<open>None\<close> is "absent or undefined". Numbers are integers: only the test for
  zero is ever made on them. The numbers that only \<^verbatim>\<open>JSON5.parse\<close> produces (\<^verbatim>\<open>-0\<close>, \<^verbatim>\<open>NaN\<close>,
  the infinite ones) are added in the section on the object graph.
\<close>

datatype json =
    JNull
  | JBool bool
  | JNum int
  | JStr string
  | JArr "json list"
  | JObj "string \<Rightarrow> json option"

text \<open>
  \<open>TypeError\<close> is the exception of that name. \<open>Unmodelled\<close> marks an execution that leaves
  the JSON values (it reads or writes a built-in object, or gives an array a named property
  or a hole, or does so on a document that is not an object) or that meets an object which
  Vue's proxies treat in a way of their own; nothing is claimed about it.
\<close>

datatype error = TypeError | Unmodelled

text \<open>JavaScript truthiness, as used by \<^verbatim>\<open>if (x)\<close>, \<^verbatim>\<open>x || y\<close> and \<^verbatim>\<open>x && y\<close>.\<close>

fun truthy :: "json \<Rightarrow> bool" where
  "truthy JNull = False"
| "truthy (JBool b) = b"
| "truthy (JNum n) = (n \<noteq> 0)"
| "truthy (JStr s) = (s \<noteq> [])"
| "truthy (JArr xs) = True"
| "truthy (JObj m) = True"

text \<open>Truthiness of an expression that may evaluate to \<^verbatim>\<open>undefined\<close>.\<close>

fun truthy_opt :: "json option \<Rightarrow> bool" where
  "truthy_opt None = False"
| "truthy_opt (Some v) = truthy v"

text \<open>\<^verbatim>\<open>x || dflt\<close> where \<^verbatim>\<open>x\<close> may be \<^verbatim>\<open>undefined\<close>.\<close>

definition or_else :: "json option \<Rightarrow> json \<Rightarrow> json" where
  "or_else x dflt = (case x of None \<Rightarrow> dflt | Some v \<Rightarrow> if truthy v then v else dflt)"

text \<open>Decimal rendering of an array index, as in the property keys \<^verbatim>\<open>"0"\<close>, \<^verbatim>\<open>"1"\<close>, ...\<close>

fun show_nat :: "nat \<Rightarrow> string" where
  "show_nat n =
     (if n < 10 then [''0123456789'' ! n]
      else show_nat (n div 10) @ [''0123456789'' ! (n mod 10)])"

declare show_nat.simps [simp del]

text \<open>
  The own enumerable properties of a value: what \<^verbatim>\<open>Object.keys\<close> and object spread
  \<^verbatim>\<open>{...v}\<close> see. Arrays and strings have their indices; \<^verbatim>\<open>null\<close>, booleans and numbers
  have none.
\<close>

fun own_props :: "json \<Rightarrow> (string \<Rightarrow> json option)" where
  "own_props (JObj m) = m"
| "own_props (JArr xs) = map_of (zip (map show_nat [0..<length xs]) xs)"
| "own_props (JStr s) = map_of (zip (map show_nat [0..<length s]) (map (\<lambda>c. JStr [c]) s))"
| "own_props _ = Map.empty"

text \<open>
  Property read \<^verbatim>\<open>v[k]\<close> (or \<^verbatim>\<open>v.k\<close>): reading from \<^verbatim>\<open>null\<close> throws; otherwise the own
  property, and \<^verbatim>\<open>length\<close> on arrays and strings. Inherited members (methods) are functions,
  never JSON values, and read as \<open>None\<close> here; every use below only asks whether the value
  read is an array or is truthy JSON data.
\<close>

fun get_prop :: "json \<Rightarrow> string \<Rightarrow> error + json option" where
  "get_prop JNull k = Inl TypeError"
| "get_prop (JArr xs) k =
     Inr (if k = ''length'' then Some (JNum (int (length xs))) else own_props (JArr xs) k)"
| "get_prop (JStr s) k =
     Inr (if k = ''length'' then Some (JNum (int (length s))) else own_props (JStr s) k)"
| "get_prop v k = Inr (own_props v k)"

text \<open>
  \<^verbatim>\<open>JSON.parse(JSON.stringify(v))\<close> on a JSON value: rebuilds the value node by node. What
  it does to a value that is not JSON (\<^verbatim>\<open>-0\<close>, \<^verbatim>\<open>NaN\<close>, an infinite number), and which
  objects are new, is \<open>parse_stringify\<close> in the section on the object graph.
\<close>

primrec json_clone :: "json \<Rightarrow> json" where
  "json_clone JNull = JNull"
| "json_clone (JBool b) = JBool b"
| "json_clone (JNum n) = JNum n"
| "json_clone (JStr s) = JStr s"
| "json_clone (JArr xs) = JArr (map json_clone xs)"
| "json_clone (JObj m) = JObj (\<lambda>k. map_option json_clone (m k))"

text \<open>\<^verbatim>\<open>xs.map(f)\<close> where \<^verbatim>\<open>f\<close> may throw: the first exception aborts the whole map.\<close>

fun map_result :: "('a \<Rightarrow> error + 'b) \<Rightarrow> 'a list \<Rightarrow> error + 'b list" where
  "map_result f [] = Inr []"
| "map_result f (x # xs) =
     (case f x of
        Inl e \<Rightarrow> Inl e
      | Inr y \<Rightarrow> (case map_result f xs of Inl e \<Rightarrow> Inl e | Inr ys \<Rightarrow> Inr (y # ys)))"

section \<open>Load: the watcher on the \<^verbatim>\<open>config\<close> prop\<close>

text \<open>
  The object literal of the watcher: the eight defaulted fields, \<^verbatim>\<open>automerge\<close> copied as it
  is (possibly \<^verbatim>\<open>undefined\<close>), then \<^verbatim>\<open>...rule\<close> laid over them. Reading a field of a
  \<^verbatim>\<open>null\<close> rule throws.
\<close>

definition rule_literal :: "(string \<Rightarrow> json option) \<Rightarrow> (string \<Rightarrow> json option)" where
  "rule_literal r =
     (Map.empty
        (''groupName'' \<mapsto> or_else (r ''groupName'') (JStr ''''),
         ''matchManagers'' \<mapsto> or_else (r ''matchManagers'') (JArr []),
         ''matchDatasources'' \<mapsto> or_else (r ''matchDatasources'') (JArr []),
         ''matchFileNames'' \<mapsto> or_else (r ''matchFileNames'') (JArr []),
         ''matchUpdateTypes'' \<mapsto> or_else (r ''matchUpdateTypes'') (JArr []),
         ''matchDepTypes'' \<mapsto> or_else (r ''matchDepTypes'') (JArr []),
         ''matchCurrentVersion'' \<mapsto> or_else (r ''matchCurrentVersion'') (JStr '''')))
        (''automerge'' := r ''automerge'',
         ''automergeType'' \<mapsto> or_else (r ''automergeType'') (JStr ''branch''))"

definition normalize_rule :: "json \<Rightarrow> error + json" where
  "normalize_rule rule =
     (case rule of
        JNull \<Rightarrow> Inl TypeError
      | _ \<Rightarrow> Inr (JObj (rule_literal (own_props rule) ++ own_props rule)))"

text \<open>
  What the watcher and \<^verbatim>\<open>cleanConfig\<close> both do to the copy they have just made: if its
  \<^verbatim>\<open>packageRules\<close> is truthy, it is replaced by \<^verbatim>\<open>packageRules.map(f)\<close>. A truthy
  \<^verbatim>\<open>packageRules\<close> that is not an array has no \<^verbatim>\<open>map\<close> method (or, for a string, none that
  is callable): TypeError. Only an object can hold a truthy own \<^verbatim>\<open>packageRules\<close>. The
  result is the copy afterwards.
\<close>

definition assign_package_rules :: "(json \<Rightarrow> error + json) \<Rightarrow> json \<Rightarrow> error + json" where
  "assign_package_rules f copied =
     (case get_prop copied ''packageRules'' of
        Inl e \<Rightarrow> Inl e
      | Inr pr \<Rightarrow>
          if \<not> truthy_opt pr then Inr copied
          else (case pr of
                  Some (JArr rules) \<Rightarrow>
                    (case map_result f rules of
                       Inl e \<Rightarrow> Inl e
                     | Inr rules' \<Rightarrow>
                         Inr (JObj ((own_props copied)(''packageRules'' \<mapsto> JArr rules'))))
                | _ \<Rightarrow> Inl TypeError))"

text \<open>
  The document that results, as a JSON value: deep copy, then the assignment above. Which
  objects the result is made of is followed in the section on the object graph.
\<close>

definition map_package_rules :: "(json \<Rightarrow> error + json) \<Rightarrow> json \<Rightarrow> error + json" where
  "map_package_rules f config = assign_package_rules f (json_clone config)"

definition load :: "json \<Rightarrow> error + json" where
  "load newConfig = map_package_rules normalize_rule newConfig"

section \<open>Export: \<^verbatim>\<open>cleanConfig\<close>\<close>

definition rule_fields :: "string list" where
  "rule_fields =
     [''groupName'', ''matchManagers'', ''matchDatasources'', ''matchFileNames'',
      ''matchUpdateTypes'', ''matchDepTypes'', ''matchCurrentVersion'',
      ''automerge'', ''automergeType'']"

text \<open>
  \<^verbatim>\<open>cleanArray(rule.f || [])\<close>: a falsy or absent field counts as the empty array; a truthy
  value that is not an array has no \<^verbatim>\<open>filter\<close> method: TypeError.
\<close>

definition cleanArray :: "json option \<Rightarrow> error + json list" where
  "cleanArray x =
     (case or_else x (JArr []) of
        JArr arr \<Rightarrow> Inr (filter (\<lambda>v. v \<noteq> JStr '''' \<and> v \<noteq> JNull) arr)
      | _ \<Rightarrow> Inl TypeError)"

text \<open>\<^verbatim>\<open>if (xs.length > 0) cleanedRule[k] = xs\<close>\<close>

definition set_nonempty ::
  "string \<Rightarrow> json list \<Rightarrow> (string \<Rightarrow> json option) \<Rightarrow> (string \<Rightarrow> json option)" where
  "set_nonempty k xs c = (if length xs > 0 then c(k \<mapsto> JArr xs) else c)"

text \<open>\<^verbatim>\<open>if (rule[k]) cleanedRule[k] = rule[k]\<close>\<close>

definition set_truthy ::
  "string \<Rightarrow> json option \<Rightarrow> (string \<Rightarrow> json option) \<Rightarrow> (string \<Rightarrow> json option)" where
  "set_truthy k x c = (if truthy_opt x then c(k := x) else c)"

text \<open>
  The final \<^verbatim>\<open>Object.keys(rule).forEach\<close>: every own key outside the nine rule fields is
  assigned onto \<^verbatim>\<open>cleanedRule\<close>. The assignment \<^verbatim>\<open>cleanedRule['__proto__'] = v\<close> runs the
  inherited setter and creates no own property, so that one key is not carried over.
\<close>

definition copy_others ::
  "(string \<Rightarrow> json option) \<Rightarrow> (string \<Rightarrow> json option) \<Rightarrow> (string \<Rightarrow> json option)" where
  "copy_others r c =
     (\<lambda>k. if k \<notin> set rule_fields \<and> k \<noteq> ''__proto__'' \<and> r k \<noteq> None then r k else c k)"

definition clean_props :: "(string \<Rightarrow> json option) \<Rightarrow> error + (string \<Rightarrow> json option)" where
  "clean_props r =
     (let c0 = set_truthy ''groupName'' (r ''groupName'') Map.empty in
      case cleanArray (r ''matchManagers'') of Inl e \<Rightarrow> Inl e | Inr managers \<Rightarrow>
      case cleanArray (r ''matchDatasources'') of Inl e \<Rightarrow> Inl e | Inr datasources \<Rightarrow>
      case cleanArray (r ''matchFileNames'') of Inl e \<Rightarrow> Inl e | Inr fileNames \<Rightarrow>
      case cleanArray (r ''matchUpdateTypes'') of Inl e \<Rightarrow> Inl e | Inr updateTypes \<Rightarrow>
      case cleanArray (r ''matchDepTypes'') of Inl e \<Rightarrow> Inl e | Inr depTypes \<Rightarrow>
      (let c1 = set_nonempty ''matchManagers'' managers c0;
           c2 = set_nonempty ''matchDatasources'' datasources c1;
           c3 = set_nonempty ''matchFileNames'' fileNames c2;
           c4 = set_nonempty ''matchUpdateTypes'' updateTypes c3;
           c5 = set_nonempty ''matchDepTypes'' depTypes c4;
           c6 = set_truthy ''matchCurrentVersion'' (r ''matchCurrentVersion'') c5;
           c7 = (if r ''automerge'' \<noteq> None then c6(''automerge'' := r ''automerge'') else c6);
           c8 = (if r ''automerge'' = Some (JBool True) \<and> truthy_opt (r ''automergeType'')
                 then c7(''automergeType'' := r ''automergeType'') else c7)
       in Inr (copy_others r c8)))"

text \<open>The callback of \<^verbatim>\<open>packageRules.map\<close>; reading a field of a \<^verbatim>\<open>null\<close> rule throws.\<close>

definition clean_rule :: "json \<Rightarrow> error + json" where
  "clean_rule rule =
     (case rule of
        JNull \<Rightarrow> Inl TypeError
      | _ \<Rightarrow> (case clean_props (own_props rule) of Inl e \<Rightarrow> Inl e | Inr c \<Rightarrow> Inr (JObj c)))"

text \<open>The document that \<^verbatim>\<open>cleanConfig\<close> returns, as a value.\<close>

definition cleanConfig :: "json \<Rightarrow> error + json" where
  "cleanConfig config = map_package_rules clean_rule config"

section \<open>The editor component's state\<close>

text \<open>
  Objects are held by reference. \<open>objects\<close> is the store of the documents the component
  has created, one tree per reference (each is built from the result of a \<^verbatim>\<open>JSON.parse\<close>
  and shares nothing with any other, so a tree is reached through exactly one reference);
  a reference is an index into it, and creating an object appends to it. \<open>editableConfig\<close>
  is the reference held in \<^verbatim>\<open>editableConfig.value\<close>, and the argument of \<^verbatim>\<open>cleanConfig\<close> is
  a reference too. The object the \<^verbatim>\<open>config\<close> prop refers to is not the component's; it is
  described with the watcher, in the section on the object graph.
  \<^verbatim>\<open>JSON.stringify(_, null, 2)\<close> and \<^verbatim>\<open>JSON.parse\<close> are the platform's; the
  operations take them as parameters \<open>stringify\<close> and \<open>parse\<close>, where \<open>parse t = None\<close>
  stands for the SyntaxError that \<^verbatim>\<open>JSON.parse\<close> throws.
\<close>

datatype view_mode = Visual | JsonMode

record editor =
  objects :: "json list"
  editableConfig :: nat
  viewMode :: view_mode
  jsonText :: string

text \<open>The working document: what \<^verbatim>\<open>editableConfig.value\<close> refers to.\<close>

definition doc :: "editor \<Rightarrow> json" where
  "doc s = objects s ! editableConfig s"

text \<open>A mutation of the working document in place: the reference stays, the object changes.\<close>

definition mutate :: "editor \<Rightarrow> json \<Rightarrow> editor" where
  "mutate s d = s\<lparr>objects := (objects s)[editableConfig s := d]\<rparr>"


definition updateJsonText :: "(json \<Rightarrow> string) \<Rightarrow> editor \<Rightarrow> editor" where
  "updateJsonText stringify s = s\<lparr>jsonText := stringify (doc s)\<rparr>"

definition switchToJsonMode :: "(json \<Rightarrow> string) \<Rightarrow> editor \<Rightarrow> editor" where
  "switchToJsonMode stringify s = (updateJsonText stringify s)\<lparr>viewMode := JsonMode\<rparr>"





section \<open>List helpers: \<^verbatim>\<open>addToArray\<close> and \<^verbatim>\<open>removeFromArray\<close>\<close>

text \<open>\<^verbatim>\<open>key.split('.')\<close>\<close>

fun split_on :: "char \<Rightarrow> string \<Rightarrow> string list" where
  "split_on c [] = [] # []"
| "split_on c (x # xs) =
     (if x = c then [] # split_on c xs
      else (case split_on c xs of p # ps \<Rightarrow> (x # p) # ps | [] \<Rightarrow> [x] # []))"


text \<open>
  A nested array or object is mutated in place; in the value model the holder is rebuilt
  with the new value under the same own key.
\<close>

fun update_own :: "json \<Rightarrow> string \<Rightarrow> json \<Rightarrow> json" where
  "update_own (JObj m) k v = JObj (m(k \<mapsto> v))"
| "update_own (JArr xs) k v =
     JArr (map (\<lambda>(i, x). if show_nat i = k then v else x) (zip [0..<length xs] xs))"
| "update_own j k v = j"

text \<open>
  \<^verbatim>\<open>editableConfig\<close> is a Vue \<^verbatim>\<open>ref\<close>. When the value it holds is an object or an array,
  \<^verbatim>\<open>editableConfig.value\<close> is not that object but the reactive proxy of it, and a property
  read on a proxy yields the proxy of a nested object or array, so every read in the two
  helpers goes through a proxy. The store holds the objects behind the proxies. A proxy
  answers some names itself, whatever the object holds: \<^verbatim>\<open>__v_isReactive\<close> reads \<^verbatim>\<open>true\<close>,
  \<^verbatim>\<open>__v_isReadonly\<close> reads \<^verbatim>\<open>false\<close>, and \<^verbatim>\<open>__v_raw\<close> reads the object behind the proxy,
  that very object and not a proxy of it. These are three of the names Vue reserves:
\<close>

definition reactive_flags :: "string list" where
  "reactive_flags =
     [''__v_skip'', ''__v_isReactive'', ''__v_isReadonly'', ''__v_isShallow'', ''__v_raw'',
      ''__v_isRef'']"

text \<open>
  An object that has one of the reserved names as an own key is treated by Vue in ways of
  its own (it may be left without a proxy, or be unwrapped as a ref, or be replaced by its
  \<^verbatim>\<open>__v_raw\<close> when it is stored); such objects are outside the model.
\<close>

definition plain :: "json \<Rightarrow> bool" where
  "plain j = (case j of JObj m \<Rightarrow> list_all (\<lambda>k. m k = None) reactive_flags | _ \<Rightarrow> True)"

definition is_object :: "json \<Rightarrow> bool" where
  "is_object j = (case j of JObj m \<Rightarrow> True | JArr xs \<Rightarrow> True | _ \<Rightarrow> False)"

text \<open>
  What a read \<^verbatim>\<open>v[k]\<close> yields when \<^verbatim>\<open>v\<close> came from \<^verbatim>\<open>editableConfig.value\<close>: \<^verbatim>\<open>undefined\<close>,
  a boolean the proxy answers, the object behind the proxy itself, or an own property (as
  its proxy, if it is an object or an array). A primitive has no proxy and is read
  directly. The reserved names whose answer is not the same in every release of Vue 3 are
  outside the model.
\<close>

datatype reading = Undefined | Flag bool | Raw | Own json

definition reactive_get :: "json \<Rightarrow> string \<Rightarrow> error + reading" where
  "reactive_get target k =
     (if is_object target then
        (if \<not> plain target then Inl Unmodelled
         else if k = ''__v_isReactive'' then Inr (Flag True)
         else if k = ''__v_isReadonly'' then Inr (Flag False)
         else if k = ''__v_raw'' then Inr Raw
         else if k \<in> set reactive_flags then Inl Unmodelled
         else (case get_prop target k of
                 Inl e \<Rightarrow> Inl e
               | Inr None \<Rightarrow> Inr Undefined
               | Inr (Some v) \<Rightarrow> if plain v then Inr (Own v) else Inl Unmodelled))
      else (case get_prop target k of
              Inl e \<Rightarrow> Inl e
            | Inr None \<Rightarrow> Inr Undefined
            | Inr (Some v) \<Rightarrow> Inr (Own v)))"

text \<open>
  The names every object inherits from \<^verbatim>\<open>Object.prototype\<close>. Reading one of them from an
  object that has no own property of that name yields a built-in function or object, not
  \<^verbatim>\<open>undefined\<close>.
\<close>

definition inherited :: "string list" where
  "inherited =
     [''constructor'', ''__proto__'', ''hasOwnProperty'', ''isPrototypeOf'',
      ''propertyIsEnumerable'', ''toLocaleString'', ''toString'', ''valueOf'',
      ''__defineGetter__'', ''__defineSetter__'', ''__lookupGetter__'', ''__lookupSetter__'']"


text \<open>
  \<^verbatim>\<open>if (!pv[child]) pv[child] = []; pv[child].push('')\<close> on a truthy \<^verbatim>\<open>pv\<close>; the result is
  \<^verbatim>\<open>pv\<close> afterwards. A truthy value that is not an array has no \<^verbatim>\<open>push\<close>; a primitive
  cannot take a property (module code is strict). Executions that touch a built-in
  or leave an array with a named property or a hole are outside the JSON values.
\<close>

definition push_empty_at :: "json \<Rightarrow> string \<Rightarrow> error + json" where
  "push_empty_at pv child =
     (case pv of
        JObj pm \<Rightarrow>
          (case pm child of
             None \<Rightarrow>
               if child \<in> set inherited then Inl Unmodelled
               else Inr (JObj (pm(child \<mapsto> JArr [JStr ''''])))
           | Some c \<Rightarrow>
               if \<not> truthy c then Inr (JObj (pm(child \<mapsto> JArr [JStr ''''])))
               else (case c of
                       JArr xs \<Rightarrow> Inr (JObj (pm(child \<mapsto> JArr (xs @ [JStr '''']))))
                     | _ \<Rightarrow> Inl TypeError))
      | JArr ys \<Rightarrow>
          (case own_props (JArr ys) child of
             None \<Rightarrow>
               if child = show_nat (length ys) then Inr (JArr (ys @ [JArr [JStr '''']]))
               else Inl Unmodelled
           | Some c \<Rightarrow>
               if \<not> truthy c then Inr (update_own (JArr ys) child (JArr [JStr '''']))
               else (case c of
                       JArr xs \<Rightarrow> Inr (update_own (JArr ys) child (JArr (xs @ [JStr ''''])))
                     | _ \<Rightarrow> Inl TypeError))
      | _ \<Rightarrow> Inl TypeError)"

text \<open>
  The same two statements on a \<^verbatim>\<open>pv\<close> that was read through the proxy. \<^verbatim>\<open>pv.__v_isReactive\<close>
  is \<^verbatim>\<open>true\<close>, which has no \<^verbatim>\<open>push\<close>. \<^verbatim>\<open>pv.__v_isReadonly\<close> is \<^verbatim>\<open>false\<close>, so the name is
  first stored as an own key and the exception comes after that change; the result type
  has no place for it. \<^verbatim>\<open>pv.__v_raw\<close> is the object behind \<^verbatim>\<open>pv\<close>: an array takes the new
  element itself, an object has no \<^verbatim>\<open>push\<close>.
\<close>

definition reactive_push :: "json \<Rightarrow> string \<Rightarrow> error + json" where
  "reactive_push pv child =
     (case reactive_get pv child of
        Inl e \<Rightarrow> Inl e
      | Inr (Flag b) \<Rightarrow> if b then Inl TypeError else Inl Unmodelled
      | Inr Raw \<Rightarrow>
          (case pv of
             JArr ys \<Rightarrow> Inr (JArr (ys @ [JStr '''']))
           | _ \<Rightarrow> Inl TypeError)
      | Inr _ \<Rightarrow> push_empty_at pv child)"

text \<open>
  \<^verbatim>\<open>addToArray\<close>. In the nested branch a falsy parent is first replaced by \<^verbatim>\<open>{}\<close>; that
  assignment needs the document to be an object, and an exception after it leaves a
  changed document behind, which the result type has no place for. A parent read as
  \<^verbatim>\<open>true\<close> can neither take the child nor has the child a \<^verbatim>\<open>push\<close>. Through \<^verbatim>\<open>__v_raw\<close> the
  parent is the document itself, without a proxy. At the top level a name that reads as
  anything but \<^verbatim>\<open>undefined\<close> or an array is left alone.
\<close>

definition addToArray :: "string \<Rightarrow> editor \<Rightarrow> error + editor" where
  "addToArray key s =
     (if CHR ''.'' \<in> set key then
        (case split_on CHR ''.'' key of
           parent # child # _ \<Rightarrow>
             if parent = [] \<or> child = [] then Inr s
             else (case doc s of
                     JNull \<Rightarrow> Inl TypeError
                   | JObj m \<Rightarrow>
                       (case reactive_get (doc s) parent of
                          Inl e \<Rightarrow> Inl e
                        | Inr (Flag b) \<Rightarrow> if b then Inl TypeError else Inl Unmodelled
                        | Inr Raw \<Rightarrow>
                            (case push_empty_at (doc s) child of
                               Inl e \<Rightarrow> Inl e
                             | Inr d \<Rightarrow> Inr (mutate s d))
                        | Inr Undefined \<Rightarrow>
                            if parent \<in> set inherited then Inl Unmodelled
                            else (case reactive_push (JObj Map.empty) child of
                                    Inl e \<Rightarrow> Inl Unmodelled
                                  | Inr parentVal' \<Rightarrow>
                                      Inr (mutate s (JObj (m(parent \<mapsto> parentVal')))))
                        | Inr (Own v) \<Rightarrow>
                            if truthy v then
                              (case reactive_push v child of
                                 Inl e \<Rightarrow> Inl e
                               | Inr parentVal' \<Rightarrow>
                                   Inr (mutate s (JObj (m(parent \<mapsto> parentVal')))))
                            else
                              (case reactive_push (JObj Map.empty) child of
                                 Inl e \<Rightarrow> Inl Unmodelled
                               | Inr parentVal' \<Rightarrow>
                                   Inr (mutate s (JObj (m(parent \<mapsto> parentVal'))))))
                   | _ \<Rightarrow> Inl Unmodelled)
         | _ \<Rightarrow> Inr s)
      else
        (case doc s of
           JNull \<Rightarrow> Inl TypeError
         | JObj m \<Rightarrow>
             (case reactive_get (doc s) key of
                Inl e \<Rightarrow> Inl e
              | Inr Undefined \<Rightarrow>
                  if key \<in> set inherited then Inr s
                  else Inr (mutate s (JObj (m(key \<mapsto> JArr [JStr '''']))))
              | Inr (Own (JArr xs)) \<Rightarrow>
                  Inr (mutate s (JObj (m(key \<mapsto> JArr (xs @ [JStr ''''])))))
              | Inr _ \<Rightarrow> Inr s)
         | _ \<Rightarrow> Inl Unmodelled))"

section \<open>The watcher on the object graph\<close>

text \<open>
  The \<^verbatim>\<open>config\<close> prop is whatever \<^verbatim>\<open>JSON5.parse\<close> made of the fetched text: numbers may be
  \<^verbatim>\<open>-0\<close>, \<^verbatim>\<open>NaN\<close> or infinite, and every object and array is an object of its own, which other
  code may hold and change. An object or array is identified by an address: the number of
  the allocating step that created it (a \<^verbatim>\<open>JSON.parse\<close>, or the \<^verbatim>\<open>map\<close> with its object and
  array literals), and its place in what that step built.
\<close>

datatype num = Fin int | NegZero | NaN | PosInf | NegInf


















section \<open>The URL input component: candidate URLs and the fetch loop\<close>

text \<open>
  Strings are lists of code units. \<^verbatim>\<open>String.prototype.includes\<close>, the two regular
  expressions and \<^verbatim>\<open>String.prototype.replace\<close> with a string pattern are written out.
\<close>

fun starts_with :: "string \<Rightarrow> string \<Rightarrow> bool" where
  "starts_with [] s = True"
| "starts_with (p # ps) [] = False"
| "starts_with (p # ps) (c # cs) = (p = c \<and> starts_with ps cs)"

fun includes_str :: "string \<Rightarrow> string \<Rightarrow> bool" where
  "includes_str [] sub = (sub = [])"
| "includes_str (c # cs) sub = (starts_with sub (c # cs) \<or> includes_str cs sub)"

text \<open>\<^verbatim>\<open>s.replace(pat, rep)\<close> for a string \<^verbatim>\<open>pat\<close>: the first occurrence only.\<close>

fun replace_first :: "string \<Rightarrow> string \<Rightarrow> string \<Rightarrow> string" where
  "replace_first pat rep [] = (if pat = [] then rep else [])"
| "replace_first pat rep (c # cs) =
     (if starts_with pat (c # cs) then rep @ drop (length pat) (c # cs)
      else c # replace_first pat rep cs)"

text \<open>
  \<^verbatim>\<open>!url.trim()\<close>: the string consists of white space and line terminators only (those
  with a code below 256).
\<close>

definition blank :: "string \<Rightarrow> bool" where
  "blank s =
     list_all (\<lambda>c. c \<in> set [CHR 0x09, CHR 0x0A, CHR 0x0B, CHR 0x0C, CHR 0x0D, CHR 0x20, CHR 0xA0])
       s"

definition RENOVATE_CONFIG_PATHS :: "string list" where
  "RENOVATE_CONFIG_PATHS =
     [''renovate.json'', ''.github/renovate.json'', ''.renovaterc.json'', ''.renovaterc'']"

text \<open>
  \<^verbatim>\<open>/github\.com\/([^\/]+)\/([^\/]+)/\<close> tried at the head of the string: both groups are
  greedy runs of non-slash characters, the first one ended by a slash.
\<close>

definition match_repo_here :: "string \<Rightarrow> (string \<times> string) option" where
  "match_repo_here s =
     (if starts_with ''github.com/'' s then
        (let rest = drop (length ''github.com/'') s;
             owner = takeWhile (\<lambda>c. c \<noteq> CHR ''/'') rest;
             after = dropWhile (\<lambda>c. c \<noteq> CHR ''/'') rest
         in if owner = [] \<or> after = [] then None
            else (let repo = takeWhile (\<lambda>c. c \<noteq> CHR ''/'') (tl after)
                  in if repo = [] then None else Some (owner, repo)))
      else None)"

text \<open>\<^verbatim>\<open>repoUrl.match(...)\<close>: the leftmost position where the expression matches.\<close>

fun match_repo :: "string \<Rightarrow> (string \<times> string) option" where
  "match_repo [] = None"
| "match_repo (c # cs) =
     (case match_repo_here (c # cs) of Some g \<Rightarrow> Some g | None \<Rightarrow> match_repo cs)"

text \<open>\<^verbatim>\<open>/github\.com\/[^\/]+\/[^\/]+\/blob\//\<close>, at the head and anywhere.\<close>

definition match_blob_here :: "string \<Rightarrow> bool" where
  "match_blob_here s =
     (starts_with ''github.com/'' s \<and>
        (let rest = drop (length ''github.com/'') s;
             owner = takeWhile (\<lambda>c. c \<noteq> CHR ''/'') rest;
             after = dropWhile (\<lambda>c. c \<noteq> CHR ''/'') rest
         in owner \<noteq> [] \<and> after \<noteq> [] \<and>
            (let repo = takeWhile (\<lambda>c. c \<noteq> CHR ''/'') (tl after);
                 tail = dropWhile (\<lambda>c. c \<noteq> CHR ''/'') (tl after)
             in repo \<noteq> [] \<and> starts_with ''/blob/'' tail)))"

fun match_blob :: "string \<Rightarrow> bool" where
  "match_blob [] = False"
| "match_blob (c # cs) = (match_blob_here (c # cs) \<or> match_blob cs)"

text \<open>\<^verbatim>\<open>repo.replace(/\.git$/, '')\<close>\<close>

definition strip_git :: "string \<Rightarrow> string" where
  "strip_git repo =
     (if starts_with (rev ''.git'') (rev repo) then take (length repo - length ''.git'') repo
      else repo)"

definition getGitHubRawUrls :: "string \<Rightarrow> string list" where
  "getGitHubRawUrls repoUrl =
     (case match_repo repoUrl of
        None \<Rightarrow> []
      | Some (owner, repo) \<Rightarrow>
          (let cleanRepo = strip_git repo in
           concat (map (\<lambda>branch.
                     map (\<lambda>path. ''https://raw.githubusercontent.com/'' @ owner @ ''/'' @ cleanRepo
                                   @ ''/'' @ branch @ ''/'' @ path)
                         RENOVATE_CONFIG_PATHS)
                   [''main'', ''master''])))"

text \<open>The \<^verbatim>\<open>urlsToTry\<close> of \<^verbatim>\<open>loadConfig\<close>.\<close>

definition urlsToTry :: "string \<Rightarrow> string list" where
  "urlsToTry url =
     (if includes_str url ''github.com'' then
        (if includes_str url ''raw.githubusercontent.com'' then [url]
         else if match_blob url then
           [replace_first ''/blob/'' ''/''
              (replace_first ''github.com'' ''raw.githubusercontent.com'' url)]
         else getGitHubRawUrls url)
      else [url])"

text \<open>
  The network and the relaxed parser are the platform's: \<open>net\<close> answers a URL with a
  response (its \<^verbatim>\<open>ok\<close> flag, status and body) or with a rejection, and \<open>parse5\<close> returns the
  document or the message of the error \<^verbatim>\<open>JSON5.parse\<close> throws. A rejection carries the
  thrown value: an \<^verbatim>\<open>Error\<close> with its message, or something else.
\<close>

datatype thrown = ErrorObject string | OtherValue

datatype response = Rejected thrown | Response bool nat string

record fetch_result =
  success :: bool
  data :: "json option"
  error :: "string option"

definition tryFetch ::
  "(string \<Rightarrow> response) \<Rightarrow> (string \<Rightarrow> string + json) \<Rightarrow> string \<Rightarrow> fetch_result" where
  "tryFetch net parse5 url =
     (case net url of
        Rejected err \<Rightarrow>
          \<lparr>success = False, data = None,
           error = Some (case err of ErrorObject msg \<Rightarrow> msg | OtherValue \<Rightarrow> ''Failed to fetch'')\<rparr>
      | Response ok status textContent \<Rightarrow>
          if \<not> ok then \<lparr>success = False, data = None, error = Some (''HTTP '' @ show_nat status)\<rparr>
          else (case parse5 textContent of
                  Inl msg \<Rightarrow> \<lparr>success = False, data = None, error = Some msg\<rparr>
                | Inr config \<Rightarrow> \<lparr>success = True, data = Some config, error = None\<rparr>))"

text \<open>
  The \<^verbatim>\<open>for\<close> loop over \<^verbatim>\<open>urlsToTry\<close>: the configuration found, if any, the last error,
  and the URLs fetched, in order.
\<close>

fun try_urls ::
  "(string \<Rightarrow> response) \<Rightarrow> (string \<Rightarrow> string + json) \<Rightarrow> string list \<Rightarrow> string
     \<Rightarrow> json option \<times> string \<times> string list" where
  "try_urls net parse5 [] lastError = (None, lastError, [])"
| "try_urls net parse5 (tryUrl # rest) lastError =
     (let result = tryFetch net parse5 tryUrl in
      if success result \<and> truthy_opt (data result) then (data result, lastError, [tryUrl])
      else (case try_urls net parse5 rest
                   (case error result of
                      None \<Rightarrow> ''Unknown error''
                    | Some e \<Rightarrow> if e = [] then ''Unknown error'' else e) of
              (config, lastError', fetched) \<Rightarrow> (config, lastError', tryUrl # fetched)))"

fun join_comma :: "string list \<Rightarrow> string" where
  "join_comma [] = []"
| "join_comma [x] = x"
| "join_comma (x # y # ys) = x @ '', '' @ join_comma (y # ys)"

text \<open>
  What \<^verbatim>\<open>loadConfig\<close> finally emits (\<^verbatim>\<open>config-loaded\<close> or \<^verbatim>\<open>error\<close>), with the URLs it
  fetched.
\<close>

datatype emitted = ConfigLoaded json | ErrorMessage string

definition loadConfig ::
  "(string \<Rightarrow> response) \<Rightarrow> (string \<Rightarrow> string + json) \<Rightarrow> string \<Rightarrow> emitted \<times> string list" where
  "loadConfig net parse5 url =
     (if blank url then (ErrorMessage ''Please enter a URL'', [])
      else (case try_urls net parse5 (urlsToTry url) [] of
              (Some config, lastError, fetched) \<Rightarrow> (ConfigLoaded config, fetched)
            | (None, lastError, fetched) \<Rightarrow>
                (ErrorMessage (''Error loading config: '' @
                   (if length (urlsToTry url) > 1
                    then ''Could not find renovate config in repository. Tried: ''
                           @ join_comma RENOVATE_CONFIG_PATHS
                    else ''Failed to load config: '' @ lastError)), fetched)))"

section \<open>Definitions used in the statements\<close>


text \<open>
  The rule \<^verbatim>\<open>cleanConfig\<close> builds once the five cleaned lists are known: the assignments of
  \<open>clean_props\<close> without the exceptions.
\<close>

definition assemble ::
  "(string \<Rightarrow> json option) \<Rightarrow> json list \<Rightarrow> json list \<Rightarrow> json list \<Rightarrow> json list \<Rightarrow> json list
     \<Rightarrow> (string \<Rightarrow> json option)" where
  "assemble r ms ds fs us ts =
     copy_others r
          (let c6 = set_truthy ''matchCurrentVersion'' (r ''matchCurrentVersion'')
                 (set_nonempty ''matchDepTypes'' ts
                 (set_nonempty ''matchUpdateTypes'' us
                 (set_nonempty ''matchFileNames'' fs
                 (set_nonempty ''matchDatasources'' ds
                 (set_nonempty ''matchManagers'' ms
                 (set_truthy ''groupName'' (r ''groupName'') Map.empty))))));
               c7 = (if r ''automerge'' \<noteq> None then c6(''automerge'' := r ''automerge'') else c6)
           in (if r ''automerge'' = Some (JBool True) \<and> truthy_opt (r ''automergeType'')
                 then c7(''automergeType'' := r ''automergeType'') else c7))"

text \<open>Load followed by Export, on documents as values.\<close>

definition export_load :: "json \<Rightarrow> error + json" where
  "export_load d = (case load d of Inl e \<Rightarrow> Inl e | Inr w \<Rightarrow> cleanConfig w)"





text \<open>
  The document a candidate yields: its fetch has a successful status and its body parses.
  The loop accepts a candidate when that document is truthy.
\<close>

definition fetched_doc ::
  "(string \<Rightarrow> response) \<Rightarrow> (string \<Rightarrow> string + json) \<Rightarrow> string \<Rightarrow> json option" where
  "fetched_doc net parse5 u =
     (case net u of
        Rejected _ \<Rightarrow> None
      | Response ok status body \<Rightarrow>
          if ok then (case parse5 body of Inl _ \<Rightarrow> None | Inr v \<Rightarrow> Some v) else None)"

definition accepted :: "(string \<Rightarrow> response) \<Rightarrow> (string \<Rightarrow> string + json) \<Rightarrow> string \<Rightarrow> bool" where
  "accepted net parse5 u = truthy_opt (fetched_doc net parse5 u)"

text \<open>
  The error of a candidate: the message of the rejection, the status, or the parser's
  message.
\<close>

definition failure_text ::
  "(string \<Rightarrow> response) \<Rightarrow> (string \<Rightarrow> string + json) \<Rightarrow> string \<Rightarrow> string" where
  "failure_text net parse5 u =
     (case net u of
        Rejected (ErrorObject msg) \<Rightarrow> msg
      | Rejected OtherValue \<Rightarrow> ''Failed to fetch''
      | Response ok status body \<Rightarrow>
          if \<not> ok then ''HTTP '' @ show_nat status
          else (case parse5 body of Inl msg \<Rightarrow> msg | Inr _ \<Rightarrow> []))"

text \<open>The eight candidates of a repository: branch by branch, path by path.\<close>

definition repo_candidates :: "string \<Rightarrow> string \<Rightarrow> string list" where
  "repo_candidates owner repo =
     (let base = ''https://raw.githubusercontent.com/'' @ owner @ ''/'' @ strip_git repo in
      [base @ ''/main/renovate.json'',
       base @ ''/main/.github/renovate.json'',
       base @ ''/main/.renovaterc.json'',
       base @ ''/main/.renovaterc'',
       base @ ''/master/renovate.json'',
       base @ ''/master/.github/renovate.json'',
       base @ ''/master/.renovaterc.json'',
       base @ ''/master/.renovaterc''])"

section \<open>Basic facts\<close>

lemma json_clone_id [simp]: "json_clone d = d"
proof (induction d)
  case (JArr xs)
  then show ?case by (simp add: map_idI)
next
  case (JObj m)
  have "map_option json_clone (m k) = m k" for k
  proof (cases "m k")
    case None
    then show ?thesis by simp
  next
    case (Some v)
    then have "Some v \<in> range m" by (metis rangeI)
    with JObj Some show ?thesis by simp
  qed
  then show ?case by simp
qed simp_all

lemma in_rule_fields:
  "k \<in> set rule_fields \<longleftrightarrow>
     k = ''groupName'' \<or> k = ''matchManagers'' \<or> k = ''matchDatasources'' \<or> k = ''matchFileNames'' \<or>
     k = ''matchUpdateTypes'' \<or> k = ''matchDepTypes'' \<or> k = ''matchCurrentVersion'' \<or>
     k = ''automerge'' \<or> k = ''automergeType''"
  by (simp add: rule_fields_def)



lemma set_nonempty_other: "k' \<noteq> k \<Longrightarrow> set_nonempty k xs c k' = c k'"
  by (simp add: set_nonempty_def)


lemma set_truthy_other: "k' \<noteq> k \<Longrightarrow> set_truthy k x c k' = c k'"
  by (simp add: set_truthy_def)



lemma assemble_other:
  "k \<notin> set rule_fields \<Longrightarrow>
     assemble r ms ds fs us ts k = (if k = ''__proto__'' then None else r k)"
  by (simp add: assemble_def Let_def copy_others_def in_rule_fields
        set_truthy_other set_nonempty_other)








lemma get_prop_obj_upd:
  "get_prop (JObj (m(k \<mapsto> v))) k = Inr (Some v)"
  by simp

lemmas eval_defs = export_load_def load_def cleanConfig_def map_package_rules_def assign_package_rules_def
  normalize_rule_def clean_rule_def clean_props_def cleanArray_def or_else_def
  rule_literal_def set_truthy_def set_nonempty_def copy_others_def rule_fields_def
  map_add_def

lemma obj_neqI: "m k \<noteq> m' k \<Longrightarrow> JObj m \<noteq> JObj m'"
  by auto







lemma split_on_none: "c \<notin> set xs \<Longrightarrow> split_on c xs = [xs]"
  by (induction xs) auto

lemma split_on_two:
  "c \<notin> set p \<Longrightarrow> c \<notin> set q \<Longrightarrow> split_on c (p @ c # q) = [p, q]"
  by (induction p) (auto simp: split_on_none)


lemma reactive_get_own:
  assumes "is_object t" "plain t" "k \<notin> set reactive_flags"
  shows "reactive_get t k =
           (case get_prop t k of
              Inl e \<Rightarrow> Inl e
            | Inr None \<Rightarrow> Inr Undefined
            | Inr (Some v) \<Rightarrow> if plain v then Inr (Own v) else Inl Unmodelled)"
proof -
  from assms(3) have "k \<noteq> ''__v_isReactive''" "k \<noteq> ''__v_isReadonly''" "k \<noteq> ''__v_raw''"
    by (auto simp: reactive_flags_def)
  with assms show ?thesis by (simp add: reactive_get_def)
qed

lemma reactive_get_obj:
  assumes "plain (JObj m)" "k \<notin> set reactive_flags"
  shows "reactive_get (JObj m) k =
           (case m k of
              None \<Rightarrow> Inr Undefined
            | Some v \<Rightarrow> if plain v then Inr (Own v) else Inl Unmodelled)"
  using reactive_get_own[OF _ assms, simplified is_object_def, simplified]
  by (simp split: option.splits)

lemma reactive_get_raw: "is_object t \<Longrightarrow> plain t \<Longrightarrow> reactive_get t ''__v_raw'' = Inr Raw"
  by (simp add: reactive_get_def)

lemma plain_arr [simp]: "plain (JArr xs)"
  by (simp add: plain_def)

lemma plain_empty [simp]: "plain (JObj Map.empty)"
  by (simp add: plain_def reactive_flags_def)

lemma is_object_simps [simp]: "is_object (JObj m)" "is_object (JArr xs)"
  by (simp_all add: is_object_def)






lemma add_top_new:
  assumes "doc s = JObj m" "plain (JObj m)" "CHR ''.'' \<notin> set key" "key \<notin> set inherited"
    "key \<notin> set reactive_flags" "m key = None"
  shows "addToArray key s = Inr (mutate s (JObj (m(key \<mapsto> JArr [JStr []]))))"
  using assms(1,3,4,6) by (simp add: addToArray_def reactive_get_obj[OF assms(2,5)])

lemma add_top_append:
  assumes "doc s = JObj m" "plain (JObj m)" "CHR ''.'' \<notin> set key"
    "key \<notin> set reactive_flags" "m key = Some (JArr xs)"
  shows "addToArray key s = Inr (mutate s (JObj (m(key \<mapsto> JArr (xs @ [JStr []])))))"
  using assms(1,3,5) by (simp add: addToArray_def reactive_get_obj[OF assms(2,4)])

lemma reactive_push_new:
  assumes "plain (JObj pm)" "c \<notin> set inherited" "c \<notin> set reactive_flags" "pm c = None"
  shows "reactive_push (JObj pm) c = Inr (JObj (pm(c \<mapsto> JArr [JStr []])))"
  using assms(2,4) by (simp add: reactive_push_def reactive_get_obj[OF assms(1,3)] push_empty_at_def)

lemma reactive_push_append:
  assumes "plain (JObj pm)" "c \<notin> set reactive_flags" "pm c = Some (JArr xs)"
  shows "reactive_push (JObj pm) c = Inr (JObj (pm(c \<mapsto> JArr (xs @ [JStr []]))))"
  using assms(3) by (simp add: reactive_push_def reactive_get_obj[OF assms(1,2)] push_empty_at_def)

lemma add_nested_new_parent:
  assumes "doc s = JObj m" "plain (JObj m)" "CHR ''.'' \<notin> set p" "CHR ''.'' \<notin> set c"
    "p \<noteq> []" "c \<noteq> []" "p \<notin> set inherited" "c \<notin> set inherited"
    "p \<notin> set reactive_flags" "c \<notin> set reactive_flags" "m p = None"
  shows "addToArray (p @ CHR ''.'' # c) s =
           Inr (mutate s (JObj (m(p \<mapsto> JObj [c \<mapsto> JArr [JStr []]]))))"
proof -
  have "reactive_push (JObj Map.empty) c = Inr (JObj [c \<mapsto> JArr [JStr []]])"
    by (rule reactive_push_new) (use assms(8,10) in simp_all)
  with assms(1,3,4,5,6,7,11) show ?thesis
    by (simp add: addToArray_def split_on_two reactive_get_obj[OF assms(2,9)])
qed

lemma add_nested_new_child:
  assumes "doc s = JObj m" "plain (JObj m)" "CHR ''.'' \<notin> set p" "CHR ''.'' \<notin> set c"
    "p \<noteq> []" "c \<noteq> []" "c \<notin> set inherited"
    "p \<notin> set reactive_flags" "c \<notin> set reactive_flags"
    "m p = Some (JObj pm)" "plain (JObj pm)" "pm c = None"
  shows "addToArray (p @ CHR ''.'' # c) s =
           Inr (mutate s (JObj (m(p \<mapsto> JObj (pm(c \<mapsto> JArr [JStr []]))))))"
proof -
  have "reactive_push (JObj pm) c = Inr (JObj (pm(c \<mapsto> JArr [JStr []])))"
    by (rule reactive_push_new[OF assms(11,7,9,12)])
  with assms(1,3,4,5,6,10,11) show ?thesis
    by (simp add: addToArray_def split_on_two reactive_get_obj[OF assms(2,8)])
qed

lemma add_nested_append:
  assumes "doc s = JObj m" "plain (JObj m)" "CHR ''.'' \<notin> set p" "CHR ''.'' \<notin> set c"
    "p \<noteq> []" "c \<noteq> []" "p \<notin> set reactive_flags" "c \<notin> set reactive_flags"
    "m p = Some (JObj pm)" "plain (JObj pm)" "pm c = Some (JArr xs)"
  shows "addToArray (p @ CHR ''.'' # c) s =
           Inr (mutate s (JObj (m(p \<mapsto> JObj (pm(c \<mapsto> JArr (xs @ [JStr []])))))))"
proof -
  have "reactive_push (JObj pm) c = Inr (JObj (pm(c \<mapsto> JArr (xs @ [JStr []]))))"
    by (rule reactive_push_append[OF assms(10,8,11)])
  with assms(1,3,4,5,6,9,10) show ?thesis
    by (simp add: addToArray_def split_on_two reactive_get_obj[OF assms(2,7)])
qed

lemma add_raw:
  assumes "doc s = JObj m" "plain (JObj m)" "CHR ''.'' \<notin> set c" "c \<noteq> []"
    "m c = Some (JArr xs)"
  shows "addToArray (''__v_raw'' @ CHR ''.'' # c) s =
           Inr (mutate s (JObj (m(c \<mapsto> JArr (xs @ [JStr []])))))"
proof -
  have "split_on CHR ''.'' (''__v_raw'' @ CHR ''.'' # c) = [''__v_raw'', c]"
    by (rule split_on_two) (use assms(3) in simp_all)
  moreover have "CHR ''.'' \<in> set (''__v_raw'' @ CHR ''.'' # c)" by simp
  moreover have "reactive_get (JObj m) ''__v_raw'' = Inr Raw"
    using assms(2) by (simp add: reactive_get_raw)
  ultimately show ?thesis
    unfolding addToArray_def using assms(1,4,5)
    by (simp add: push_empty_at_def del: append.simps)
qed

lemma tryFetch_accepted:
  "(success (tryFetch net p u) \<and> truthy_opt (data (tryFetch net p u))) = accepted net p u"
  by (auto simp: tryFetch_def accepted_def fetched_doc_def split: response.splits sum.splits)

lemma tryFetch_data:
  "accepted net p u \<Longrightarrow> data (tryFetch net p u) = fetched_doc net p u"
  by (auto simp: tryFetch_def accepted_def fetched_doc_def split: response.splits sum.splits)

lemma tryFetch_error:
  "(case error (tryFetch net p u) of None \<Rightarrow> ''Unknown error''
      | Some e \<Rightarrow> if e = [] then ''Unknown error'' else e)
   = (if failure_text net p u = [] then ''Unknown error'' else failure_text net p u)"
  by (auto simp: tryFetch_def failure_text_def split: response.splits sum.splits thrown.splits)

lemma try_urls_step_reject:
  assumes "\<not> accepted net p x"
  shows "fst (try_urls net p (x # us) e) =
           fst (try_urls net p us (if failure_text net p x = [] then ''Unknown error''
                                   else failure_text net p x)) \<and>
         fst (snd (try_urls net p (x # us) e)) =
           fst (snd (try_urls net p us (if failure_text net p x = [] then ''Unknown error''
                                   else failure_text net p x))) \<and>
         snd (snd (try_urls net p (x # us) e)) =
           x # snd (snd (try_urls net p us (if failure_text net p x = [] then ''Unknown error''
                                   else failure_text net p x)))"
proof -
  let ?E = "if failure_text net p x = [] then ''Unknown error'' else failure_text net p x"
  from assms have "(success (tryFetch net p x) \<and> truthy_opt (data (tryFetch net p x))) = False"
    by (simp add: tryFetch_accepted)
  then have "try_urls net p (x # us) e =
      (case try_urls net p us
              (case error (tryFetch net p x) of None \<Rightarrow> ''Unknown error''
               | Some e \<Rightarrow> if e = [] then ''Unknown error'' else e) of
         (config, lastError', fetched) \<Rightarrow> (config, lastError', x # fetched))"
    by (simp only: try_urls.simps Let_def if_False)
  then have eq: "try_urls net p (x # us) e =
      (case try_urls net p us ?E of
         (config, lastError', fetched) \<Rightarrow> (config, lastError', x # fetched))"
    by (simp only: tryFetch_error)
  show ?thesis
    unfolding eq by (cases "try_urls net p us ?E") simp
qed

lemma try_urls_step_accept:
  assumes "accepted net p u"
  shows "try_urls net p (u # us) e = (fetched_doc net p u, e, [u])"
proof -
  from assms have r: "success (tryFetch net p u) \<and> truthy_opt (data (tryFetch net p u))"
    by (simp add: tryFetch_accepted)
  show ?thesis
    using r tryFetch_data[OF assms] by (simp add: Let_def)
qed

lemma try_urls_first:
  assumes "\<forall>x\<in>set pre. \<not> accepted net p x" and "accepted net p u"
  shows "fst (try_urls net p (pre @ u # post) e) = fetched_doc net p u \<and>
         snd (snd (try_urls net p (pre @ u # post) e)) = pre @ [u]"
  using assms
proof (induction pre arbitrary: e)
  case Nil
  then show ?case by (simp only: append_Nil try_urls_step_accept fst_conv snd_conv simp_thms)
next
  case (Cons x pre)
  then have nx: "\<not> accepted net p x" by simp
  from Cons have IH: "\<And>e. fst (try_urls net p (pre @ u # post) e) = fetched_doc net p u \<and>
         snd (snd (try_urls net p (pre @ u # post) e)) = pre @ [u]" by simp
  show ?case
    using try_urls_step_reject[OF nx, of "pre @ u # post" e] IH by simp
qed

lemma try_urls_none:
  assumes "\<forall>x\<in>set us. \<not> accepted net p x"
  shows "fst (try_urls net p us e) = None \<and> snd (snd (try_urls net p us e)) = us"
  using assms
proof (induction us arbitrary: e)
  case Nil
  then show ?case by simp
next
  case (Cons x us)
  then have nx: "\<not> accepted net p x" by simp
  from Cons have IH: "\<And>e. fst (try_urls net p us e) = None \<and> snd (snd (try_urls net p us e)) = us"
    by simp
  show ?case using try_urls_step_reject[OF nx, of us e] IH by simp
qed

lemma try_urls_single:
  "snd (snd (try_urls net p [u] e)) = [u]"
proof (cases "accepted net p u")
  case True
  then show ?thesis by (simp only: try_urls_step_accept snd_conv)
next
  case False
  from try_urls_step_reject[OF False, of "[]" e] show ?thesis by simp
qed

lemma try_urls_single_error:
  assumes "\<not> accepted net p u"
  shows "fst (snd (try_urls net p [u] e))
           = (if failure_text net p u = [] then ''Unknown error'' else failure_text net p u)"
  using try_urls_step_reject[OF assms, of "[]" e] by simp

lemma getGitHubRawUrls_match:
  "match_repo url = Some (owner, repo) \<Longrightarrow> getGitHubRawUrls url = repo_candidates owner repo"
  by (simp add: getGitHubRawUrls_def repo_candidates_def RENOVATE_CONFIG_PATHS_def Let_def)

lemma join_paths:
  "join_comma RENOVATE_CONFIG_PATHS
     = ''renovate.json, .github/renovate.json, .renovaterc.json, .renovaterc''"
  by (simp add: RENOVATE_CONFIG_PATHS_def)

lemma loadConfig_found:
  assumes "\<not> blank url" and "urlsToTry url = pre @ u # post"
    and "\<forall>x\<in>set pre. \<not> accepted net p x"
    and "fetched_doc net p u = Some v" and "truthy v"
  shows "loadConfig net p url = (ConfigLoaded v, pre @ [u])"
proof -
  from assms(4,5) have acc: "accepted net p u" by (simp add: accepted_def)
  from try_urls_first[OF assms(3) acc, of post "[]"] assms(4)
  have "fst (try_urls net p (urlsToTry url) []) = Some v"
    and "snd (snd (try_urls net p (urlsToTry url) [])) = pre @ [u]"
    by (simp_all add: assms(2))
  then show ?thesis
    using assms(1) by (cases "try_urls net p (urlsToTry url) []") (simp add: loadConfig_def)
qed

lemma loadConfig_rejected:
  assumes "\<not> blank url" and "\<forall>u\<in>set (urlsToTry url). \<not> accepted net p u"
  shows "snd (loadConfig net p url) = urlsToTry url \<and>
         (length (urlsToTry url) > 1 \<longrightarrow>
            fst (loadConfig net p url) =
              ErrorMessage (''Error loading config: Could not find renovate config in repository. ''
                 @ ''Tried: renovate.json, .github/renovate.json, .renovaterc.json, .renovaterc'')) \<and>
         (\<forall>u. urlsToTry url = [u] \<longrightarrow>
            fst (loadConfig net p url) =
              ErrorMessage (''Error loading config: Failed to load config: '' @
                 (if failure_text net p u = [] then ''Unknown error'' else failure_text net p u)))"
proof -
  obtain c e f where t: "try_urls net p (urlsToTry url) [] = (c, e, f)"
    by (cases "try_urls net p (urlsToTry url) []") auto
  from try_urls_none[OF assms(2), of "[]"] t have c: "c = None" and f: "f = urlsToTry url"
    by simp_all
  have 1: "snd (loadConfig net p url) = urlsToTry url"
    using assms(1) t c f by (simp add: loadConfig_def)
  have 2: "fst (loadConfig net p url) =
              ErrorMessage (''Error loading config: Could not find renovate config in repository. ''
                 @ ''Tried: renovate.json, .github/renovate.json, .renovaterc.json, .renovaterc'')"
    if "length (urlsToTry url) > 1"
    using assms(1) t c that by (simp add: loadConfig_def join_paths)
  have 3: "fst (loadConfig net p url) =
              ErrorMessage (''Error loading config: Failed to load config: '' @
                 (if failure_text net p u = [] then ''Unknown error'' else failure_text net p u))"
    if u: "urlsToTry url = [u]" for u
  proof -
    from assms(2) u have "\<not> accepted net p u" by simp
    from try_urls_single_error[OF this, of "[]"] t u
    have "e = (if failure_text net p u = [] then ''Unknown error'' else failure_text net p u)"
      by simp
    then show ?thesis
      using assms(1) t c u by (simp add: loadConfig_def)
  qed
  from 1 2 3 show ?thesis by (intro conjI allI impI)
qed

lemma widgets_urls:
  "urlsToTry ''https://github.com/acme/widgets'' =
     [''https://raw.githubusercontent.com/acme/widgets/main/renovate.json'',
      ''https://raw.githubusercontent.com/acme/widgets/main/.github/renovate.json'',
      ''https://raw.githubusercontent.com/acme/widgets/main/.renovaterc.json'',
      ''https://raw.githubusercontent.com/acme/widgets/main/.renovaterc'',
      ''https://raw.githubusercontent.com/acme/widgets/master/renovate.json'',
      ''https://raw.githubusercontent.com/acme/widgets/master/.github/renovate.json'',
      ''https://raw.githubusercontent.com/acme/widgets/master/.renovaterc.json'',
      ''https://raw.githubusercontent.com/acme/widgets/master/.renovaterc'']"
  by (simp add: urlsToTry_def getGitHubRawUrls_def match_repo_here_def match_blob_here_def
        strip_git_def RENOVATE_CONFIG_PATHS_def)

lemma widgets_shape:
  "\<not> blank ''https://github.com/acme/widgets''"
  "includes_str ''https://github.com/acme/widgets'' ''github.com''"
  "\<not> includes_str ''https://github.com/acme/widgets'' ''raw.githubusercontent.com''"
  "\<not> match_blob ''https://github.com/acme/widgets''"
  "match_repo ''https://github.com/acme/widgets'' = Some (''acme'', ''widgets'')"
  by (simp_all add: blank_def match_repo_here_def match_blob_here_def)

lemma example_shape:
  "\<not> blank ''https://example.com/renovate.json''"
  "\<not> includes_str ''https://example.com/renovate.json'' ''github.com''"
  by (simp_all add: blank_def)

lemma show_nat_404: "show_nat 404 = ''404''"
  by (simp add: show_nat.simps)





























section \<open>Load followed by Export\<close>

text \<open>
  Claim C1 says that Load followed by Export, applied to its own result, returns that
  result again. The code does not do that at a rule with \<^verbatim>\<open>automerge: true\<close> and
  \<^verbatim>\<open>automergeType: ""\<close>: the comment above the guard in \<^verbatim>\<open>cleanConfig\<close> says the type is
  included whenever automerge is enabled, "regardless of value", but the guard drops a falsy
  one. The first export is the rule \<^verbatim>\<open>{automerge: true}\<close>; loading that export fills in
  \<^verbatim>\<open>"branch"\<close>, which the second export then emits, so the second result differs from the
  first.
\<close>

theorem export_load_not_idempotent:
  "export_load (JObj [''packageRules'' \<mapsto>
       JArr [JObj [''automerge'' \<mapsto> JBool True, ''automergeType'' \<mapsto> JStr []]]])
     = Inr (JObj [''packageRules'' \<mapsto> JArr [JObj [''automerge'' \<mapsto> JBool True]]]) \<and>
   export_load (JObj [''packageRules'' \<mapsto> JArr [JObj [''automerge'' \<mapsto> JBool True]]])
     = Inr (JObj [''packageRules'' \<mapsto>
         JArr [JObj [''automerge'' \<mapsto> JBool True, ''automergeType'' \<mapsto> JStr ''branch'']]]) \<and>
   export_load (JObj [''packageRules'' \<mapsto> JArr [JObj [''automerge'' \<mapsto> JBool True]]])
     \<noteq> Inr (JObj [''packageRules'' \<mapsto> JArr [JObj [''automerge'' \<mapsto> JBool True]]])"
proof -
  have first: "export_load (JObj [''packageRules'' \<mapsto>
       JArr [JObj [''automerge'' \<mapsto> JBool True, ''automergeType'' \<mapsto> JStr []]]])
     = Inr (JObj [''packageRules'' \<mapsto> JArr [JObj [''automerge'' \<mapsto> JBool True]]])"
    by (simp add: eval_defs fun_eq_iff)
  have second: "export_load (JObj [''packageRules'' \<mapsto> JArr [JObj [''automerge'' \<mapsto> JBool True]]])
     = Inr (JObj [''packageRules'' \<mapsto>
         JArr [JObj [''automerge'' \<mapsto> JBool True, ''automergeType'' \<mapsto> JStr ''branch'']]])"
    by (simp add: eval_defs fun_eq_iff)
  have "JObj [''automerge'' \<mapsto> JBool True, ''automergeType'' \<mapsto> JStr ''branch'']
          \<noteq> JObj [''automerge'' \<mapsto> JBool True]"
    by (rule obj_neqI[where k = "''automergeType''"]) simp
  then have "JObj [''packageRules'' \<mapsto>
         JArr [JObj [''automerge'' \<mapsto> JBool True, ''automergeType'' \<mapsto> JStr ''branch'']]]
     \<noteq> JObj [''packageRules'' \<mapsto> JArr [JObj [''automerge'' \<mapsto> JBool True]]]"
    by (intro obj_neqI[where k = "''packageRules''"]) simp
  then have third: "export_load (JObj [''packageRules'' \<mapsto> JArr [JObj [''automerge'' \<mapsto> JBool True]]])
     \<noteq> Inr (JObj [''packageRules'' \<mapsto> JArr [JObj [''automerge'' \<mapsto> JBool True]]])"
    unfolding second by simp
  from first second third show ?thesis by (intro conjI)
qed

section \<open>Export of the automerge fields\<close>



section \<open>Switching back to the visual mode\<close>



section \<open>Load fills the rule defaults\<close>




section \<open>Removing a list item\<close>




section \<open>Adding a list item\<close>

text \<open>
  Claim C9, as amended. On a plain object document, for a top-level key and for a one-level
  nested path \<^verbatim>\<open>p.c\<close>, none of the names being one that objects inherit or that Vue
  reserves, and an existing parent object being plain: \<^verbatim>\<open>addToArray\<close> appends the empty
  string to the list the path addresses; an absent top-level key is created as the list
  \<^verbatim>\<open>['']\<close>; an absent child of an existing parent object is created as \<^verbatim>\<open>['']\<close>; and an
  absent parent is created as the object holding only the child \<^verbatim>\<open>['']\<close>. In particular
  \<^verbatim>\<open>addToArray('lockFileMaintenance.schedule')\<close> on a document without
  \<^verbatim>\<open>lockFileMaintenance\<close> adds \<^verbatim>\<open>lockFileMaintenance: { schedule: [''] }\<close>. The path
  \<^verbatim>\<open>__v_raw.c\<close> addresses the top-level list \<^verbatim>\<open>c\<close> of the document, and appends to it.
\<close>

theorem addToArray_appends:
  assumes "doc s = JObj m" and "plain (JObj m)"
    and "CHR ''.'' \<notin> set key" and "CHR ''.'' \<notin> set p" and "CHR ''.'' \<notin> set c"
    and "p \<noteq> []" and "c \<noteq> []"
    and "key \<notin> set inherited" and "p \<notin> set inherited" and "c \<notin> set inherited"
    and "key \<notin> set reactive_flags" and "p \<notin> set reactive_flags"
    and "c \<notin> set reactive_flags"
  shows "(\<forall>xs. m key = Some (JArr xs) \<longrightarrow>
            addToArray key s =
              Inr (mutate s (JObj (m(key \<mapsto> JArr (xs @ [JStr []])))))) \<and>
         (m key = None \<longrightarrow>
            addToArray key s = Inr (mutate s (JObj (m(key \<mapsto> JArr [JStr []]))))) \<and>
         (\<forall>pm xs. m p = Some (JObj pm) \<and> plain (JObj pm) \<and> pm c = Some (JArr xs) \<longrightarrow>
            addToArray (p @ CHR ''.'' # c) s =
              Inr (mutate s (JObj (m(p \<mapsto> JObj (pm(c \<mapsto> JArr (xs @ [JStr []])))))))) \<and>
         (\<forall>pm. m p = Some (JObj pm) \<and> plain (JObj pm) \<and> pm c = None \<longrightarrow>
            addToArray (p @ CHR ''.'' # c) s =
              Inr (mutate s (JObj (m(p \<mapsto> JObj (pm(c \<mapsto> JArr [JStr []]))))))) \<and>
         (m p = None \<longrightarrow>
            addToArray (p @ CHR ''.'' # c) s =
              Inr (mutate s (JObj (m(p \<mapsto> JObj [c \<mapsto> JArr [JStr []]]))))) \<and>
         (m ''lockFileMaintenance'' = None \<longrightarrow>
            addToArray ''lockFileMaintenance.schedule'' s =
              Inr (mutate s (JObj (m(''lockFileMaintenance'' \<mapsto> JObj [''schedule'' \<mapsto> JArr [JStr []]]))))) \<and>
         (\<forall>xs. m c = Some (JArr xs) \<longrightarrow>
            addToArray (''__v_raw'' @ CHR ''.'' # c) s =
              Inr (mutate s (JObj (m(c \<mapsto> JArr (xs @ [JStr []]))))))"
proof (intro conjI allI impI)
  fix xs assume "m key = Some (JArr xs)"
  then show "addToArray key s =
      Inr (mutate s (JObj (m(key \<mapsto> JArr (xs @ [JStr []])))))"
    by (rule add_top_append[OF assms(1,2,3,11)])
next
  assume "m key = None"
  then show "addToArray key s = Inr (mutate s (JObj (m(key \<mapsto> JArr [JStr []]))))"
    by (rule add_top_new[OF assms(1,2,3,8,11)])
next
  fix pm xs assume "m p = Some (JObj pm) \<and> plain (JObj pm) \<and> pm c = Some (JArr xs)"
  then have "m p = Some (JObj pm)" "plain (JObj pm)" "pm c = Some (JArr xs)" by simp_all
  then show "addToArray (p @ CHR ''.'' # c) s =
      Inr (mutate s (JObj (m(p \<mapsto> JObj (pm(c \<mapsto> JArr (xs @ [JStr []])))))))"
    by (rule add_nested_append[OF assms(1,2,4,5,6,7,12,13)])
next
  fix pm assume "m p = Some (JObj pm) \<and> plain (JObj pm) \<and> pm c = None"
  then have "m p = Some (JObj pm)" "plain (JObj pm)" "pm c = None" by simp_all
  then show "addToArray (p @ CHR ''.'' # c) s =
      Inr (mutate s (JObj (m(p \<mapsto> JObj (pm(c \<mapsto> JArr [JStr []]))))))"
    by (rule add_nested_new_child[OF assms(1,2,4,5,6,7,10,12,13)])
next
  assume "m p = None"
  then show "addToArray (p @ CHR ''.'' # c) s =
      Inr (mutate s (JObj (m(p \<mapsto> JObj [c \<mapsto> JArr [JStr []]]))))"
    by (rule add_nested_new_parent[OF assms(1,2,4,5,6,7,9,10,12,13)])
next
  assume n: "m ''lockFileMaintenance'' = None"
  have "addToArray (''lockFileMaintenance'' @ CHR ''.'' # ''schedule'') s =
      Inr (mutate s (JObj (m(''lockFileMaintenance'' \<mapsto> JObj [''schedule'' \<mapsto> JArr [JStr []]]))))"
    by (rule add_nested_new_parent[OF assms(1,2) _ _ _ _ _ _ _ _ n])
       (simp_all add: inherited_def reactive_flags_def)
  then show "addToArray ''lockFileMaintenance.schedule'' s =
      Inr (mutate s (JObj (m(''lockFileMaintenance'' \<mapsto> JObj [''schedule'' \<mapsto> JArr [JStr []]]))))"
    by simp
next
  fix xs assume "m c = Some (JArr xs)"
  then show "addToArray (''__v_raw'' @ CHR ''.'' # c) s =
      Inr (mutate s (JObj (m(c \<mapsto> JArr (xs @ [JStr []])))))"
    by (rule add_raw[OF assms(1,2,5,7)])
qed

theorem addToArray_appends_witness:
  "addToArray ''lockFileMaintenance.schedule''
       \<lparr>objects = [JObj [''enabled'' \<mapsto> JBool True]], editableConfig = 0,
        viewMode = Visual, jsonText = []\<rparr>
     = Inr \<lparr>objects = [JObj [''enabled'' \<mapsto> JBool True,
               ''lockFileMaintenance'' \<mapsto> JObj [''schedule'' \<mapsto> JArr [JStr []]]]], editableConfig = 0,
        viewMode = Visual, jsonText = []\<rparr> \<and>
   addToArray ''labels''
       \<lparr>objects = [JObj [''enabled'' \<mapsto> JBool True]], editableConfig = 0,
        viewMode = Visual, jsonText = []\<rparr>
     = Inr \<lparr>objects = [JObj [''enabled'' \<mapsto> JBool True, ''labels'' \<mapsto> JArr [JStr []]]], editableConfig = 0,
        viewMode = Visual, jsonText = []\<rparr>"
proof -
  let ?m = "[''enabled'' \<mapsto> JBool True]"
  let ?s = "\<lparr>objects = [JObj ?m], editableConfig = 0,
        viewMode = Visual, jsonText = []\<rparr>"
  have a: "doc ?s = JObj ?m" by (simp add: doc_def)
  have pl: "plain (JObj ?m)" by (simp add: plain_def reactive_flags_def)
  have d: "CHR ''.'' \<notin> set ''labels''" "CHR ''.'' \<notin> set ''lockFileMaintenance''"
    "CHR ''.'' \<notin> set ''schedule''" "''lockFileMaintenance'' \<noteq> []" "''schedule'' \<noteq> []"
    "''labels'' \<notin> set inherited" "''lockFileMaintenance'' \<notin> set inherited"
    "''schedule'' \<notin> set inherited"
    "''labels'' \<notin> set reactive_flags" "''lockFileMaintenance'' \<notin> set reactive_flags"
    "''schedule'' \<notin> set reactive_flags"
    by (simp_all add: inherited_def reactive_flags_def)
  have l: "?m ''labels'' = None" and p: "?m ''lockFileMaintenance'' = None" by simp_all
  note t = addToArray_appends[OF a pl d]
  note sched = t[THEN conjunct2, THEN conjunct2, THEN conjunct2, THEN conjunct2, THEN conjunct2,
                 THEN conjunct1, THEN mp, OF p]
  note labels = t[THEN conjunct2, THEN conjunct1, THEN mp, OF l]
  have 1: "addToArray ''lockFileMaintenance.schedule'' ?s
     = Inr \<lparr>objects = [JObj [''enabled'' \<mapsto> JBool True,
               ''lockFileMaintenance'' \<mapsto> JObj [''schedule'' \<mapsto> JArr [JStr []]]]], editableConfig = 0,
        viewMode = Visual, jsonText = []\<rparr>"
    unfolding sched by (simp add: mutate_def)
  have 2: "addToArray ''labels'' ?s
     = Inr \<lparr>objects = [JObj [''enabled'' \<mapsto> JBool True, ''labels'' \<mapsto> JArr [JStr []]]], editableConfig = 0,
        viewMode = Visual, jsonText = []\<rparr>"
    unfolding labels by (simp add: mutate_def)
  from 1 2 show ?thesis by (intro conjI)
qed

text \<open>
  The claim as stated fails for a name that reads as something although the document has
  no such key. \<^verbatim>\<open>toString\<close> is inherited and reads as a function, and the proxy answers
  \<^verbatim>\<open>__v_isReactive\<close> with \<^verbatim>\<open>true\<close>: neither is \<^verbatim>\<open>undefined\<close> and neither is an array, so
  nothing is created and nothing is appended.
\<close>

theorem addToArray_nothing_created:
  "own_props (JObj [''enabled'' \<mapsto> JBool True]) ''toString'' = None \<and>
   own_props (JObj [''enabled'' \<mapsto> JBool True]) ''__v_isReactive'' = None \<and>
   addToArray ''toString''
       \<lparr>objects = [JObj [''enabled'' \<mapsto> JBool True]], editableConfig = 0,
        viewMode = Visual, jsonText = []\<rparr>
     = Inr \<lparr>objects = [JObj [''enabled'' \<mapsto> JBool True]], editableConfig = 0,
        viewMode = Visual, jsonText = []\<rparr> \<and>
   addToArray ''__v_isReactive''
       \<lparr>objects = [JObj [''enabled'' \<mapsto> JBool True]], editableConfig = 0,
        viewMode = Visual, jsonText = []\<rparr>
     = Inr \<lparr>objects = [JObj [''enabled'' \<mapsto> JBool True]], editableConfig = 0,
        viewMode = Visual, jsonText = []\<rparr>"
  by (simp add: addToArray_def reactive_get_def is_object_def plain_def reactive_flags_def
      inherited_def doc_def)

section \<open>Export leaves the working document alone\<close>



section \<open>Candidates of a repository URL\<close>

text \<open>
  Claim C3, as amended. For an input of the bare repository shape (it contains
  \<^verbatim>\<open>github.com\<close>, names no raw-content host, is no blob URL, and the repository expression
  matches with groups \<open>owner\<close> and \<open>repo\<close>) the candidates are exactly the eight URLs of
  \<open>repo_candidates\<close>: the four paths on \<^verbatim>\<open>main\<close>, then the four paths on \<^verbatim>\<open>master\<close>. They are
  fetched in that order, and if candidate \<open>i\<close> is the first whose fetch has a successful
  status, whose body parses and whose parsed value is truthy, the resolver emits that value
  and has fetched exactly the candidates up to \<open>i\<close>.
\<close>

theorem loadConfig_repo_candidates:
  assumes "\<not> blank url" and "includes_str url ''github.com''"
    and "\<not> includes_str url ''raw.githubusercontent.com''" and "\<not> match_blob url"
    and "match_repo url = Some (owner, repo)"
  shows "urlsToTry url = repo_candidates owner repo \<and> length (urlsToTry url) = 8 \<and>
         (\<forall>i v. i < 8 \<and> fetched_doc net p (urlsToTry url ! i) = Some v \<and> truthy v \<and>
                 (\<forall>j<i. \<not> accepted net p (urlsToTry url ! j)) \<longrightarrow>
                 loadConfig net p url = (ConfigLoaded v, take (Suc i) (urlsToTry url)))"
proof (intro conjI allI impI)
  show c: "urlsToTry url = repo_candidates owner repo"
    using assms(2-5) by (simp add: urlsToTry_def getGitHubRawUrls_match)
  show l: "length (urlsToTry url) = 8"
    unfolding c by (simp add: repo_candidates_def Let_def)
  fix i v
  assume h: "i < 8 \<and> fetched_doc net p (urlsToTry url ! i) = Some v \<and> truthy v \<and>
             (\<forall>j<i. \<not> accepted net p (urlsToTry url ! j))"
  let ?us = "urlsToTry url"
  from h l have i: "i < length ?us" by simp
  then have split: "?us = take i ?us @ ?us ! i # drop (Suc i) ?us"
    by (rule id_take_nth_drop)
  have pre: "\<forall>x\<in>set (take i ?us). \<not> accepted net p x"
  proof
    fix x assume "x \<in> set (take i ?us)"
    then obtain j where "j < length (take i ?us)" "take i ?us ! j = x"
      by (auto simp: in_set_conv_nth)
    then have "j < i" "?us ! j = x" using i by auto
    with h show "\<not> accepted net p x" by auto
  qed
  from h have f: "fetched_doc net p (?us ! i) = Some v" and t: "truthy v" by auto
  have "loadConfig net p url = (ConfigLoaded v, take i ?us @ [?us ! i])"
    by (rule loadConfig_found[OF assms(1) split pre f t])
  then show "loadConfig net p url = (ConfigLoaded v, take (Suc i) ?us)"
    using i by (simp add: take_Suc_conv_app_nth)
qed

theorem loadConfig_repo_candidates_witness:
  "loadConfig
     (\<lambda>u. if u = ''https://raw.githubusercontent.com/acme/widgets/master/.github/renovate.json''
          then Response True 200 ''{}'' else Response False 404 [])
     (\<lambda>t. if t = ''{}'' then Inr (JObj Map.empty) else Inl ''invalid'')
     ''https://github.com/acme/widgets''
   = (ConfigLoaded (JObj Map.empty),
      [''https://raw.githubusercontent.com/acme/widgets/main/renovate.json'',
       ''https://raw.githubusercontent.com/acme/widgets/main/.github/renovate.json'',
       ''https://raw.githubusercontent.com/acme/widgets/main/.renovaterc.json'',
       ''https://raw.githubusercontent.com/acme/widgets/main/.renovaterc'',
       ''https://raw.githubusercontent.com/acme/widgets/master/renovate.json'',
       ''https://raw.githubusercontent.com/acme/widgets/master/.github/renovate.json''])"
proof -
  let ?net = "\<lambda>u. if u = ''https://raw.githubusercontent.com/acme/widgets/master/.github/renovate.json''
          then Response True 200 ''{}'' else Response False 404 []"
  let ?p = "\<lambda>t. if t = ''{}'' then Inr (JObj Map.empty) else Inl ''invalid''"
  let ?url = "''https://github.com/acme/widgets''"
  note t = loadConfig_repo_candidates[OF widgets_shape, of ?net ?p]
  have f: "fetched_doc ?net ?p (urlsToTry ?url ! 5) = Some (JObj Map.empty)"
    unfolding widgets_urls by (simp add: fetched_doc_def)
  have n: "\<forall>j<5. \<not> accepted ?net ?p (urlsToTry ?url ! j)"
    unfolding widgets_urls
    by (simp add: eval_nat_numeral All_less_Suc accepted_def fetched_doc_def)
  have h: "(5::nat) < 8 \<and> fetched_doc ?net ?p (urlsToTry ?url ! 5) = Some (JObj Map.empty) \<and>
           truthy (JObj Map.empty) \<and> (\<forall>j<5. \<not> accepted ?net ?p (urlsToTry ?url ! j))"
    using f n by simp
  note r = t[THEN conjunct2, THEN conjunct2, THEN spec, THEN spec, THEN mp, OF h]
  show ?thesis
    using r unfolding widgets_urls by (simp add: eval_nat_numeral)
qed

text \<open>
  The claim as stated fails when a candidate fetches and parses to a falsy value: the
  guard \<^verbatim>\<open>result.success && result.data\<close> rejects it and the loop goes on. Here the first
  candidate parses to \<^verbatim>\<open>null\<close>; all eight are fetched and an error is emitted.
\<close>

theorem loadConfig_skips_falsy_document:
  "fetched_doc
     (\<lambda>u. if u = ''https://raw.githubusercontent.com/acme/widgets/main/renovate.json''
          then Response True 200 ''null'' else Response False 404 [])
     (\<lambda>t. if t = ''null'' then Inr JNull else Inl ''invalid'')
     ''https://raw.githubusercontent.com/acme/widgets/main/renovate.json'' = Some JNull \<and>
   loadConfig
     (\<lambda>u. if u = ''https://raw.githubusercontent.com/acme/widgets/main/renovate.json''
          then Response True 200 ''null'' else Response False 404 [])
     (\<lambda>t. if t = ''null'' then Inr JNull else Inl ''invalid'')
     ''https://github.com/acme/widgets''
   = (ErrorMessage (''Error loading config: Could not find renovate config in repository. ''
                     @ ''Tried: renovate.json, .github/renovate.json, .renovaterc.json, .renovaterc''),
      [''https://raw.githubusercontent.com/acme/widgets/main/renovate.json'',
       ''https://raw.githubusercontent.com/acme/widgets/main/.github/renovate.json'',
       ''https://raw.githubusercontent.com/acme/widgets/main/.renovaterc.json'',
       ''https://raw.githubusercontent.com/acme/widgets/main/.renovaterc'',
       ''https://raw.githubusercontent.com/acme/widgets/master/renovate.json'',
       ''https://raw.githubusercontent.com/acme/widgets/master/.github/renovate.json'',
       ''https://raw.githubusercontent.com/acme/widgets/master/.renovaterc.json'',
       ''https://raw.githubusercontent.com/acme/widgets/master/.renovaterc''])"
proof -
  let ?net = "\<lambda>u. if u = ''https://raw.githubusercontent.com/acme/widgets/main/renovate.json''
          then Response True 200 ''null'' else Response False 404 []"
  let ?p = "\<lambda>t. if t = ''null'' then Inr JNull else Inl ''invalid''"
  let ?url = "''https://github.com/acme/widgets''"
  have f: "fetched_doc ?net ?p ''https://raw.githubusercontent.com/acme/widgets/main/renovate.json''
             = Some JNull"
    by (simp add: fetched_doc_def)
  have n: "\<forall>u\<in>set (urlsToTry ?url). \<not> accepted ?net ?p u"
    unfolding widgets_urls by (simp add: accepted_def fetched_doc_def)
  note r = loadConfig_rejected[OF widgets_shape(1) n]
  have l: "length (urlsToTry ?url) > 1" unfolding widgets_urls by simp
  from r l have "fst (loadConfig ?net ?p ?url) =
      ErrorMessage (''Error loading config: Could not find renovate config in repository. ''
                     @ ''Tried: renovate.json, .github/renovate.json, .renovaterc.json, .renovaterc'')"
    and "snd (loadConfig ?net ?p ?url) = urlsToTry ?url"
    by simp_all
  then have "loadConfig ?net ?p ?url =
      (ErrorMessage (''Error loading config: Could not find renovate config in repository. ''
                     @ ''Tried: renovate.json, .github/renovate.json, .renovaterc.json, .renovaterc''),
       urlsToTry ?url)"
    by (simp add: prod_eq_iff)
  with f show ?thesis unfolding widgets_urls by (intro conjI)
qed

section \<open>An input used verbatim\<close>

text \<open>
  Claim C4, as amended. For every input that is not blank and does not contain
  \<^verbatim>\<open>github.com\<close>, the input itself is the single candidate, and exactly that string is
  fetched, once.
\<close>

theorem loadConfig_verbatim:
  assumes "\<not> blank url" and "\<not> includes_str url ''github.com''"
  shows "urlsToTry url = [url] \<and> snd (loadConfig net p url) = [url]"
proof -
  from assms(2) have u: "urlsToTry url = [url]" by (simp add: urlsToTry_def)
  have "snd (snd (try_urls net p [url] [])) = [url]" by (rule try_urls_single)
  then have "snd (loadConfig net p url) = [url]"
    using assms(1) u
    by (cases "try_urls net p [url] []") (auto simp: loadConfig_def split: option.splits)
  with u show ?thesis by simp
qed

theorem loadConfig_verbatim_witness:
  "urlsToTry ''https://example.com/renovate.json'' = [''https://example.com/renovate.json''] \<and>
   snd (loadConfig (\<lambda>u. Response False 404 []) (\<lambda>t. Inl ''invalid'')
          ''https://example.com/renovate.json'') = [''https://example.com/renovate.json'']"
  by (rule loadConfig_verbatim[OF example_shape])

text \<open>
  The claim as stated fails for an input that contains \<^verbatim>\<open>github.com\<close> but has none of the
  three shapes, such as a URL with an owner and no repository: there is no candidate and
  nothing is fetched. It also fails for a non-empty input of white space only.
\<close>

theorem loadConfig_no_candidate:
  "\<not> blank ''https://github.com/acme'' \<and>
   \<not> includes_str ''https://github.com/acme'' ''raw.githubusercontent.com'' \<and>
   \<not> match_blob ''https://github.com/acme'' \<and>
   match_repo ''https://github.com/acme'' = None \<and>
   loadConfig (\<lambda>u. Response True 200 ''{}'') (\<lambda>t. Inr (JObj Map.empty)) ''https://github.com/acme''
     = (ErrorMessage ''Error loading config: Failed to load config: '', []) \<and>
   loadConfig (\<lambda>u. Response True 200 ''{}'') (\<lambda>t. Inr (JObj Map.empty)) '' ''
     = (ErrorMessage ''Please enter a URL'', [])"
proof -
  have s: "\<not> blank ''https://github.com/acme''"
    "\<not> includes_str ''https://github.com/acme'' ''raw.githubusercontent.com''"
    "\<not> match_blob ''https://github.com/acme''"
    "match_repo ''https://github.com/acme'' = None"
    by (simp_all add: blank_def match_repo_here_def match_blob_here_def)
  have u: "urlsToTry ''https://github.com/acme'' = []"
    by (simp add: urlsToTry_def getGitHubRawUrls_def match_repo_here_def match_blob_here_def)
  have 1: "loadConfig (\<lambda>u. Response True 200 ''{}'') (\<lambda>t. Inr (JObj Map.empty))
             ''https://github.com/acme''
     = (ErrorMessage ''Error loading config: Failed to load config: '', [])"
    using s(1) by (simp add: loadConfig_def u)
  have 2: "loadConfig (\<lambda>u. Response True 200 ''{}'') (\<lambda>t. Inr (JObj Map.empty)) '' ''
     = (ErrorMessage ''Please enter a URL'', [])"
    by (simp add: loadConfig_def blank_def)
  from s 1 2 show ?thesis by (intro conjI)
qed

section \<open>The message when no candidate succeeds\<close>

text \<open>
  Claim C7, as amended. If the input is not blank and no candidate is accepted (each one is
  rejected, answers with an unsuccessful status, fails to parse, or parses to a falsy
  value), every candidate has been fetched and a single error message is emitted. With more
  than one candidate it lists the conventional paths. With exactly one candidate it carries
  that candidate's own failure text (the message of the rejection, \<^verbatim>\<open>HTTP\<close> and the
  status, or the parser's message) when there is one and it is not empty, and
  \<^verbatim>\<open>Unknown error\<close> otherwise.
\<close>

theorem loadConfig_failure_message:
  assumes "\<not> blank url" and "\<forall>u\<in>set (urlsToTry url). \<not> accepted net p u"
  shows "snd (loadConfig net p url) = urlsToTry url \<and>
         (length (urlsToTry url) > 1 \<longrightarrow>
            fst (loadConfig net p url) =
              ErrorMessage (''Error loading config: Could not find renovate config in repository. ''
                 @ ''Tried: renovate.json, .github/renovate.json, .renovaterc.json, .renovaterc'')) \<and>
         (\<forall>u. urlsToTry url = [u] \<longrightarrow>
            fst (loadConfig net p url) =
              ErrorMessage (''Error loading config: Failed to load config: '' @
                 (if failure_text net p u = [] then ''Unknown error'' else failure_text net p u)))"
  using assms by (rule loadConfig_rejected)

theorem loadConfig_failure_message_witness:
  "fst (loadConfig (\<lambda>u. Response False 404 []) (\<lambda>t. Inl ''invalid'')
          ''https://github.com/acme/widgets'')
     = ErrorMessage (''Error loading config: Could not find renovate config in repository. ''
                     @ ''Tried: renovate.json, .github/renovate.json, .renovaterc.json, .renovaterc'') \<and>
   fst (loadConfig (\<lambda>u. Response False 404 []) (\<lambda>t. Inl ''invalid'')
          ''https://example.com/renovate.json'')
     = ErrorMessage ''Error loading config: Failed to load config: HTTP 404''"
proof -
  let ?net = "\<lambda>u::string. Response False 404 []"
  let ?p = "\<lambda>t::string. (Inl ''invalid'' :: string + json)"
  have rej: "\<not> accepted ?net ?p u" for u
    by (simp add: accepted_def fetched_doc_def)
  then have n1: "\<forall>u\<in>set (urlsToTry ''https://github.com/acme/widgets''). \<not> accepted ?net ?p u"
    and n2: "\<forall>u\<in>set (urlsToTry ''https://example.com/renovate.json''). \<not> accepted ?net ?p u"
    by blast+
  have l: "length (urlsToTry ''https://github.com/acme/widgets'') > 1"
    unfolding widgets_urls by simp
  have e: "urlsToTry ''https://example.com/renovate.json'' = [''https://example.com/renovate.json'']"
    using example_shape(2) by (simp add: urlsToTry_def)
  have ft: "failure_text ?net ?p ''https://example.com/renovate.json'' = ''HTTP 404''"
    by (simp add: failure_text_def show_nat_404)
  note a = loadConfig_failure_message[OF widgets_shape(1) n1,
             THEN conjunct2, THEN conjunct1, THEN mp, OF l]
  note b = loadConfig_failure_message[OF example_shape(1) n2,
             THEN conjunct2, THEN conjunct2, THEN spec, THEN mp, OF e]
  from a b show ?thesis unfolding ft by simp
qed

text \<open>
  The claim as stated fails when the only candidate answers with a successful status and
  its body parses to a falsy value: the guard \<^verbatim>\<open>result.success && result.data\<close> rejects
  it, there is no transport or parse error to carry, and the message says
  \<^verbatim>\<open>Unknown error\<close>.
\<close>

theorem loadConfig_unknown_error:
  "fetched_doc (\<lambda>u. Response True 200 ''null'')
       (\<lambda>t. if t = ''null'' then Inr JNull else Inl ''invalid'')
       ''https://example.com/renovate.json'' = Some JNull \<and>
   failure_text (\<lambda>u. Response True 200 ''null'')
       (\<lambda>t. if t = ''null'' then Inr JNull else Inl ''invalid'')
       ''https://example.com/renovate.json'' = [] \<and>
   loadConfig (\<lambda>u. Response True 200 ''null'')
       (\<lambda>t. if t = ''null'' then Inr JNull else Inl ''invalid'')
       ''https://example.com/renovate.json''
     = (ErrorMessage ''Error loading config: Failed to load config: Unknown error'',
        [''https://example.com/renovate.json''])"
proof -
  let ?net = "\<lambda>u::string. Response True 200 ''null''"
  let ?p = "\<lambda>t. if t = ''null'' then Inr JNull else (Inl ''invalid'' :: string + json)"
  let ?url = "''https://example.com/renovate.json''"
  have f: "fetched_doc ?net ?p ?url = Some JNull" by (simp add: fetched_doc_def)
  have t: "failure_text ?net ?p ?url = []" by (simp add: failure_text_def)
  have e: "urlsToTry ?url = [?url]"
    using example_shape(2) by (simp add: urlsToTry_def)
  have n: "\<forall>u\<in>set (urlsToTry ?url). \<not> accepted ?net ?p u"
    unfolding e by (simp add: accepted_def fetched_doc_def)
  note r = loadConfig_rejected[OF example_shape(1) n]
  note m = r[THEN conjunct2, THEN conjunct2, THEN spec, THEN mp, OF e]
  note s = r[THEN conjunct1]
  have "loadConfig ?net ?p ?url
     = (ErrorMessage ''Error loading config: Failed to load config: Unknown error'', [?url])"
    using m s unfolding t e by (simp add: prod_eq_iff)
  with f t show ?thesis by (intro conjI)
qed

end
